theory Spec2Isabelle
  imports Complex_Main "HOL-Library.Log_Nat"
begin

section \<open>Bank accounts and the Bank registry of OOP_1.py\<close>

text \<open>
  The module defines a base class \<^verbatim>\<open>BankAccount\<close>, three subclasses
  (\<^verbatim>\<open>SavingsAccount\<close>, \<^verbatim>\<open>CurrentAccount\<close>, \<^verbatim>\<open>FixedDepositAccount\<close>) and a
  \<^verbatim>\<open>Bank\<close> that keeps a dict from account number to account object.

  Modelling decisions.
  \<^item> Amounts, balances, rates and limits are Python numbers: an \<^verbatim>\<open>int\<close> of any size or
    a \<^verbatim>\<open>float\<close>, the two types of the literals the module and its demo use
    (\<^verbatim>\<open>balance=0.0\<close>, \<^verbatim>\<open>3.5\<close>, \<^verbatim>\<open>1000\<close>). A float is an IEEE 754
    binary64 value; every float operation rounds its exact result to the nearest
    representable value, ties to even. The two zeros of binary64 are one value here: no
    comparison and no operation of the module tells them apart. Objects of other numeric
    classes (\<^verbatim>\<open>Decimal\<close>, \<^verbatim>\<open>Fraction\<close>) are not inputs of this model.
  \<^item> An instant of the clock is a \<^verbatim>\<open>datetime\<close>, counted in microseconds since
    0001-01-01 00:00:00; \<^verbatim>\<open>datetime.now()\<close> is a parameter \<open>now\<close> of every function
    that reads the clock. \<^verbatim>\<open>lock_period_days\<close> is an \<^verbatim>\<open>int\<close>.
  \<^item> Every \<^verbatim>\<open>raise\<close>, of the module or of the operations it calls, is a value
    \<open>Inl e\<close>. A method returns its outcome together with the object as the call left it,
    so that "the call failed and changed nothing" is a statement about the second
    component.
  \<^item> Account objects live in a store indexed by references; the Bank's dict holds
    references. Two keys of the dict, or two variables of a caller, may therefore denote
    the same object.
  \<^item> Of a \<^verbatim>\<open>print\<close> call the model keeps what can make it raise, the \<^verbatim>\<open>:.2f\<close>
    formatting of a number; the text written and \<^verbatim>\<open>__str__\<close> are presentation and are
    left out.
\<close>

subsection \<open>Errors\<close>

text \<open>
  The failures the module raises itself are \<^verbatim>\<open>ValueError\<close>s told apart by their
  message. \<open>OverflowError\<close> is raised by the number and date operations the module
  calls (its message is not modelled). \<open>AttributeError\<close> is what Python raises when a
  method is looked up on an object whose class does not define it.
\<close>

datatype error = ValueError string | OverflowError | AttributeError string

type_synonym outcome = "error + unit"

subsection \<open>Python numbers\<close>

text \<open>A float: a finite value, an infinity or a NaN.\<close>

datatype double = Finite rat | PosInf | NegInf | NaN

datatype number = PyInt int | PyFloat double

text \<open>The floor of the binary logarithm of \<open>a / b\<close>, for positive integers \<open>a\<close> and \<open>b\<close>.\<close>

definition floor_log2_ratio :: "int \<Rightarrow> int \<Rightarrow> int" where
  "floor_log2_ratio a b =
     (let k = bitlen a - bitlen b
      in if (if 0 \<le> k then b * 2 ^ nat k \<le> a else b \<le> a * 2 ^ nat (- k)) then k else k - 1)"

text \<open>The integer nearest to \<open>n / d\<close> for \<open>d > 0\<close>, ties to the even one.\<close>

definition div_half_even :: "int \<Rightarrow> int \<Rightarrow> int" where
  "div_half_even n d =
     (let f = n div d; r = n mod d
      in if 2 * r < d then f else if d < 2 * r then f + 1 else if even f then f else f + 1)"

text \<open>
  Rounding of an exact value \<open>x = n / d\<close> to binary64. With \<open>l\<close> the floor of the binary
  logarithm of \<open>\<bar>x\<bar>\<close>, the unit in the last place of the result is \<open>2 ^ e\<close> for
  \<open>e = max l (-1022) - 52\<close> (53 significant bits, subnormal below \<open>2 ^ (-1022)\<close>);
  \<open>m\<close> is \<open>x / 2 ^ e\<close> rounded to an integer, ties to even; the result is
  \<open>m * 2 ^ e\<close>, or an infinity when that reaches \<open>2 ^ 1024\<close>.
\<close>

definition fl :: "rat \<Rightarrow> double" where
  "fl x =
     (let (n, d) = quotient_of x
      in if n = 0 then Finite 0
         else
           (let l = floor_log2_ratio \<bar>n\<bar> d;
                e = max l (- 1022) - 52;
                m = (if e \<le> 0 then div_half_even (n * 2 ^ nat (- e)) d
                     else div_half_even n (d * 2 ^ nat e))
            in if 0 \<le> e
               then (if 2 ^ 1024 \<le> \<bar>m\<bar> * 2 ^ nat e
                     then (if 0 < n then PosInf else NegInf)
                     else Finite (of_int (m * 2 ^ nat e)))
               else Finite (of_int m / of_int (2 ^ nat (- e)))))"

text \<open>A float literal of the program text, such as \<^verbatim>\<open>0.1\<close> for \<open>float_literal (1 / 10)\<close>.\<close>

definition float_literal :: "rat \<Rightarrow> number" where
  "float_literal x = PyFloat (fl x)"

text \<open>The arithmetic of floats.\<close>

definition float_neg :: "double \<Rightarrow> double" where
  "float_neg x = (case x of Finite a \<Rightarrow> Finite (- a) | PosInf \<Rightarrow> NegInf | NegInf \<Rightarrow> PosInf
                  | NaN \<Rightarrow> NaN)"

definition float_add :: "double \<Rightarrow> double \<Rightarrow> double" where
  "float_add x y =
     (case x of
        NaN \<Rightarrow> NaN
      | Finite a \<Rightarrow> (case y of Finite b \<Rightarrow> fl (a + b) | _ \<Rightarrow> y)
      | PosInf \<Rightarrow> (case y of NaN \<Rightarrow> NaN | NegInf \<Rightarrow> NaN | _ \<Rightarrow> PosInf)
      | NegInf \<Rightarrow> (case y of NaN \<Rightarrow> NaN | PosInf \<Rightarrow> NaN | _ \<Rightarrow> NegInf))"

definition float_sub :: "double \<Rightarrow> double \<Rightarrow> double" where
  "float_sub x y = float_add x (float_neg y)"

definition float_sign :: "double \<Rightarrow> int" where
  "float_sign x =
     (case x of
        Finite a \<Rightarrow> (if a < 0 then - 1 else if a = 0 then 0 else 1)
      | PosInf \<Rightarrow> 1
      | NegInf \<Rightarrow> - 1
      | NaN \<Rightarrow> 0)"

definition float_mul :: "double \<Rightarrow> double \<Rightarrow> double" where
  "float_mul x y =
     (if x = NaN \<or> y = NaN then NaN
      else (case (x, y) of
              (Finite a, Finite b) \<Rightarrow> fl (a * b)
            | _ \<Rightarrow> (let s = float_sign x * float_sign y
                    in if s = 0 then NaN else if 0 < s then PosInf else NegInf)))"


text \<open>
  The conversion of an \<^verbatim>\<open>int\<close> to a float, which Python makes before a mixed operation
  and before a \<^verbatim>\<open>:.2f\<close> formatting, raises when the rounded value is not finite.
\<close>

definition int_to_float :: "int \<Rightarrow> error + double" where
  "int_to_float n = (case fl (of_int n) of Finite r \<Rightarrow> Inr (Finite r) | _ \<Rightarrow> Inl OverflowError)"

definition to_float :: "number \<Rightarrow> error + double" where
  "to_float x = (case x of PyInt n \<Rightarrow> int_to_float n | PyFloat d \<Rightarrow> Inr d)"

definition is_float :: "number \<Rightarrow> bool" where
  "is_float x = (case x of PyInt n \<Rightarrow> False | PyFloat d \<Rightarrow> True)"

text \<open>
  A binary operation of Python: exact on two \<^verbatim>\<open>int\<close>s, otherwise both operands become
  floats (left one first) and the float operation is applied.
\<close>

definition py_binop ::
    "(int \<Rightarrow> int \<Rightarrow> int) \<Rightarrow> (double \<Rightarrow> double \<Rightarrow> double) \<Rightarrow> number \<Rightarrow> number \<Rightarrow> error + number"
  where
  "py_binop int_op float_op x y =
     (case (x, y) of
        (PyInt a, PyInt b) \<Rightarrow> Inr (PyInt (int_op a b))
      | _ \<Rightarrow> (case to_float x of
               Inl e \<Rightarrow> Inl e
             | Inr dx \<Rightarrow> (case to_float y of
                           Inl e \<Rightarrow> Inl e
                         | Inr dy \<Rightarrow> Inr (PyFloat (float_op dx dy)))))"

definition py_add :: "number \<Rightarrow> number \<Rightarrow> error + number" where
  "py_add = py_binop (+) float_add"

definition py_sub :: "number \<Rightarrow> number \<Rightarrow> error + number" where
  "py_sub = py_binop (-) float_sub"

definition py_mul :: "number \<Rightarrow> number \<Rightarrow> error + number" where
  "py_mul = py_binop (*) float_mul"


text \<open>
  Comparisons. Python compares an \<^verbatim>\<open>int\<close> with a float by their exact values; a
  comparison with a NaN is false.
\<close>

definition exact :: "number \<Rightarrow> double" where
  "exact x = (case x of PyInt n \<Rightarrow> Finite (of_int n) | PyFloat d \<Rightarrow> d)"

definition float_le :: "double \<Rightarrow> double \<Rightarrow> bool" where
  "float_le x y =
     (case x of
        NaN \<Rightarrow> False
      | NegInf \<Rightarrow> y \<noteq> NaN
      | PosInf \<Rightarrow> y = PosInf
      | Finite a \<Rightarrow> (case y of Finite b \<Rightarrow> a \<le> b | PosInf \<Rightarrow> True | _ \<Rightarrow> False))"

definition float_lt :: "double \<Rightarrow> double \<Rightarrow> bool" where
  "float_lt x y =
     (case x of
        NaN \<Rightarrow> False
      | NegInf \<Rightarrow> y \<noteq> NaN \<and> y \<noteq> NegInf
      | PosInf \<Rightarrow> False
      | Finite a \<Rightarrow> (case y of Finite b \<Rightarrow> a < b | PosInf \<Rightarrow> True | _ \<Rightarrow> False))"

definition py_le :: "number \<Rightarrow> number \<Rightarrow> bool" where
  "py_le x y = float_le (exact x) (exact y)"

definition py_gt :: "number \<Rightarrow> number \<Rightarrow> bool" where
  "py_gt x y = float_lt (exact y) (exact x)"

text \<open>
  \<^verbatim>\<open>f"{x:.2f}"\<close>, the part of a \<^verbatim>\<open>print\<close> call that can raise: an \<^verbatim>\<open>int\<close> is
  converted to a float first.
\<close>

definition format_2f :: "number \<Rightarrow> outcome" where
  "format_2f x = (case to_float x of Inl e \<Rightarrow> Inl e | Inr d \<Rightarrow> Inr ())"

subsection \<open>Dates\<close>

text \<open>
  \<^verbatim>\<open>timedelta(days=n)\<close> in microseconds; the constructor refuses more than 999999999
  days.
\<close>

definition timedelta_days :: "int \<Rightarrow> error + int" where
  "timedelta_days n = (if 999999999 < \<bar>n\<bar> then Inl OverflowError else Inr (n * 86400000000))"

text \<open>
  The first instant after \<^verbatim>\<open>datetime.max\<close>: 3652059 days, the ordinal of 9999-12-31.
\<close>

definition datetime_end :: int where
  "datetime_end = 3652059 * 86400000000"

text \<open>\<^verbatim>\<open>datetime + timedelta\<close> raises when the result is not a \<^verbatim>\<open>datetime\<close>.\<close>

definition datetime_add :: "int \<Rightarrow> int \<Rightarrow> error + int" where
  "datetime_add t d =
     (if 0 \<le> t + d \<and> t + d < datetime_end then Inr (t + d) else Inl OverflowError)"

subsection \<open>Account objects\<close>

text \<open>The class of an object, with the attributes the subclass adds.\<close>

datatype account_class =
    BankAccount
  | SavingsAccount (interest_rate: number)
  | CurrentAccount (overdraft_limit: number)
  | FixedDepositAccount (lock_period_days: int) (creation_date: int)

record account =
  account_number :: string
  account_holder :: string
  balance :: number
  cls :: account_class

text \<open>The constructors. \<^verbatim>\<open>FixedDepositAccount.__init__\<close> reads the clock.\<close>

definition init_BankAccount :: "string \<Rightarrow> string \<Rightarrow> number \<Rightarrow> account" where
  "init_BankAccount num holder bal =
     \<lparr>account_number = num, account_holder = holder, balance = bal, cls = BankAccount\<rparr>"

definition init_SavingsAccount :: "string \<Rightarrow> string \<Rightarrow> number \<Rightarrow> number \<Rightarrow> account" where
  "init_SavingsAccount num holder rate bal =
     (init_BankAccount num holder bal)\<lparr>cls := SavingsAccount rate\<rparr>"

definition init_CurrentAccount :: "string \<Rightarrow> string \<Rightarrow> number \<Rightarrow> number \<Rightarrow> account" where
  "init_CurrentAccount num holder limit bal =
     (init_BankAccount num holder bal)\<lparr>cls := CurrentAccount limit\<rparr>"

definition init_FixedDepositAccount ::
    "int \<Rightarrow> string \<Rightarrow> string \<Rightarrow> int \<Rightarrow> number \<Rightarrow> account" where
  "init_FixedDepositAccount now num holder days bal =
     (init_BankAccount num holder bal)\<lparr>cls := FixedDepositAccount days now\<rparr>"

subsection \<open>Methods of the accounts\<close>

text \<open>
  \<^verbatim>\<open>BankAccount.deposit\<close>, inherited unchanged by the three subclasses: the test, the
  sum (which raises before anything is assigned), the assignment, the \<^verbatim>\<open>print\<close>.
\<close>

definition deposit :: "number \<Rightarrow> account \<Rightarrow> outcome \<times> account" where
  "deposit amount a =
     (if py_le amount (PyInt 0)
      then (Inl (ValueError ''Deposit amount must be positive.''), a)
      else (case py_add (balance a) amount of
              Inl e \<Rightarrow> (Inl e, a)
            | Inr v \<Rightarrow> (format_2f amount, a\<lparr>balance := v\<rparr>)))"

text \<open>\<^verbatim>\<open>BankAccount.withdraw\<close>.\<close>

definition BankAccount_withdraw :: "number \<Rightarrow> account \<Rightarrow> outcome \<times> account" where
  "BankAccount_withdraw amount a =
     (if py_le amount (PyInt 0)
      then (Inl (ValueError ''Withdrawal amount must be positive.''), a)
      else if py_gt amount (balance a) then (Inl (ValueError ''Insufficient funds.''), a)
      else (case py_sub (balance a) amount of
              Inl e \<Rightarrow> (Inl e, a)
            | Inr v \<Rightarrow> (format_2f amount, a\<lparr>balance := v\<rparr>)))"

text \<open>\<^verbatim>\<open>CurrentAccount.withdraw\<close>, with the object's \<^verbatim>\<open>overdraft_limit\<close>.\<close>

definition CurrentAccount_withdraw :: "number \<Rightarrow> number \<Rightarrow> account \<Rightarrow> outcome \<times> account" where
  "CurrentAccount_withdraw limit amount a =
     (if py_le amount (PyInt 0)
      then (Inl (ValueError ''Withdrawal amount must be positive.''), a)
      else (case py_add (balance a) limit of
              Inl e \<Rightarrow> (Inl e, a)
            | Inr room \<Rightarrow>
                if py_gt amount room then (Inl (ValueError ''Exceeds overdraft limit.''), a)
                else (case py_sub (balance a) amount of
                        Inl e \<Rightarrow> (Inl e, a)
                      | Inr v \<Rightarrow> (format_2f amount, a\<lparr>balance := v\<rparr>))))"

text \<open>
  \<^verbatim>\<open>FixedDepositAccount.withdraw\<close>, with the object's \<^verbatim>\<open>lock_period_days\<close> and
  \<^verbatim>\<open>creation_date\<close>: the clock is read, the end of the lock-in period is computed
  (which raises when it is no \<^verbatim>\<open>datetime\<close>), then the test, then the base method.
\<close>

definition FixedDepositAccount_withdraw ::
    "int \<Rightarrow> int \<Rightarrow> int \<Rightarrow> number \<Rightarrow> account \<Rightarrow> outcome \<times> account" where
  "FixedDepositAccount_withdraw now days created amount a =
     (case timedelta_days days of
        Inl e \<Rightarrow> (Inl e, a)
      | Inr period \<Rightarrow>
          (case datetime_add created period of
             Inl e \<Rightarrow> (Inl e, a)
           | Inr unlock \<Rightarrow>
               if now < unlock
               then (Inl (ValueError ''Withdrawal not allowed before lock-in period ends.''), a)
               else BankAccount_withdraw amount a))"

text \<open>\<^verbatim>\<open>account.withdraw(amount)\<close>: the method of the object's class.\<close>

definition withdraw :: "int \<Rightarrow> number \<Rightarrow> account \<Rightarrow> outcome \<times> account" where
  "withdraw now amount a =
     (case cls a of
        BankAccount \<Rightarrow> BankAccount_withdraw amount a
      | SavingsAccount rate \<Rightarrow> BankAccount_withdraw amount a
      | CurrentAccount limit \<Rightarrow> CurrentAccount_withdraw limit amount a
      | FixedDepositAccount days created \<Rightarrow>
          FixedDepositAccount_withdraw now days created amount a)"

definition get_balance :: "account \<Rightarrow> number" where
  "get_balance a = balance a"


subsection \<open>The Bank\<close>

text \<open>
  References to account objects, the store that holds the objects, and the Bank with its
  dict from account number to reference.
\<close>

type_synonym ref = nat

type_synonym store = "ref \<Rightarrow> account"

record bank =
  accounts :: "string \<rightharpoonup> ref"

definition init_Bank :: bank where
  "init_Bank = \<lparr>accounts = Map.empty\<rparr>"

text \<open>\<^verbatim>\<open>Bank.add_account(account)\<close>: reads the object's number, changes the dict only.\<close>

definition add_account :: "store \<Rightarrow> ref \<Rightarrow> bank \<Rightarrow> outcome \<times> bank" where
  "add_account s r b =
     (if account_number (s r) \<in> dom (accounts b)
      then (Inl (ValueError ''Account with this number already exists.''), b)
      else (Inr (), b\<lparr>accounts := (accounts b)(account_number (s r) \<mapsto> r)\<rparr>))"

definition get_account :: "bank \<Rightarrow> string \<Rightarrow> ref option" where
  "get_account b num = accounts b num"

text \<open>
  \<^verbatim>\<open>Bank.transfer_funds\<close>: both lookups, the test, then \<^verbatim>\<open>withdraw\<close> on the
  source object, \<^verbatim>\<open>deposit\<close> on the destination object, which is read from the store
  as the withdrawal left it, and the \<^verbatim>\<open>print\<close>. A call that raises ends the transfer
  with the store as that call left it.
\<close>

definition transfer_funds ::
    "int \<Rightarrow> bank \<Rightarrow> string \<Rightarrow> string \<Rightarrow> number \<Rightarrow> store \<Rightarrow> outcome \<times> store" where
  "transfer_funds now b from_account_number to_account_number amount s =
     (case (get_account b from_account_number, get_account b to_account_number) of
        (Some from_account, Some to_account) \<Rightarrow>
          (case withdraw now amount (s from_account) of
             (Inl e, a') \<Rightarrow> (Inl e, s(from_account := a'))
           | (Inr u, a') \<Rightarrow>
               (let s1 = s(from_account := a')
                in (case deposit amount (s1 to_account) of
                      (Inl e, b') \<Rightarrow> (Inl e, s1(to_account := b'))
                    | (Inr u', b') \<Rightarrow> (format_2f amount, s1(to_account := b')))))
      | _ \<Rightarrow> (Inl (ValueError ''One or both accounts not found.''), s))"

text \<open>
  A run of \<^verbatim>\<open>add_account\<close> calls on one Bank, each with the next reference of the
  list; a call that raises is caught by the caller and the run goes on.
\<close>

fun add_accounts :: "store \<Rightarrow> ref list \<Rightarrow> bank \<Rightarrow> bank" where
  "add_accounts s [] b = b"
| "add_accounts s (r # rs) b = add_accounts s rs (snd (add_account s r b))"

subsection \<open>The objects of the demo program\<close>

text \<open>
  The three accounts the \<^verbatim>\<open>__main__\<close> block creates, at the references 101, 102 and
  103 of a store; the clock reads 2026-11-04 00:00:00 when the fixed deposit is created.
  Then the Bank after its three \<^verbatim>\<open>add_account\<close> calls.
\<close>

definition demo_clock :: int where
  "demo_clock = 63929347200000000"

definition demo_store :: store where
  "demo_store = (\<lambda>r. init_BankAccount [] [] (PyFloat (Finite 0)))
     (101 := init_SavingsAccount ''S1001'' ''Alice'' (PyFloat (Finite (7 / 2))) (PyInt 1000),
      102 := init_CurrentAccount ''C1001'' ''Bob'' (PyInt 500) (PyInt 200),
      103 := init_FixedDepositAccount demo_clock ''F1001'' ''Charlie'' 30 (PyInt 5000))"

definition demo_bank :: bank where
  "demo_bank = add_accounts demo_store [101, 102, 103] init_Bank"

subsection \<open>Objects with float balances and with a balance beyond the floats\<close>

text \<open>
  An \<^verbatim>\<open>int\<close> that no float can hold, \<^verbatim>\<open>10**309\<close>. Then five objects of the base
  class, at the references 201 to 205, with the balances \<^verbatim>\<open>0.3\<close>, \<^verbatim>\<open>0.7\<close>,
  \<^verbatim>\<open>0.9\<close>, \<^verbatim>\<open>5\<close> and \<^verbatim>\<open>10**309\<close>, and the Bank that holds them.
\<close>

definition beyond_floats :: int where
  "beyond_floats = 10 ^ 309"

definition edge_store :: store where
  "edge_store = (\<lambda>r. init_BankAccount [] [] (PyFloat (Finite 0)))
     (201 := init_BankAccount ''A201'' ''Ann'' (float_literal (3 / 10)),
      202 := init_BankAccount ''A202'' ''Ben'' (float_literal (7 / 10)),
      203 := init_BankAccount ''A203'' ''Cat'' (float_literal (9 / 10)),
      204 := init_BankAccount ''A204'' ''Dee'' (PyInt 5),
      205 := init_BankAccount ''A205'' ''Eli'' (PyInt beyond_floats))"

definition edge_bank :: bank where
  "edge_bank = add_accounts edge_store [201, 202, 203, 204, 205] init_Bank"

section \<open>Properties\<close>

subsection \<open>Python numbers\<close>

text \<open>
  Operations and comparisons of two \<^verbatim>\<open>int\<close>s are exact; an operation with a float
  operand is the float operation on the two float values.
\<close>

lemma py_int_ops:
  "py_add (PyInt a) (PyInt b) = Inr (PyInt (a + b))"
  "py_sub (PyInt a) (PyInt b) = Inr (PyInt (a - b))"
  "py_mul (PyInt a) (PyInt b) = Inr (PyInt (a * b))"
  by (simp_all add: py_add_def py_sub_def py_mul_def py_binop_def)

lemma py_int_cmp:
  "py_le (PyInt a) (PyInt b) = (a \<le> b)"
  "py_gt (PyInt a) (PyInt b) = (b < a)"
  by (simp_all add: py_le_def py_gt_def exact_def float_le_def float_lt_def)

lemma py_binop_float:
  assumes "is_float u \<or> is_float v" and "to_float u = Inr x" and "to_float v = Inr y"
  shows "py_binop int_op float_op u v = Inr (PyFloat (float_op x y))"
  using assms by (cases u; cases v) (simp_all add: py_binop_def is_float_def)

lemma py_float_ops:
  assumes "is_float u \<or> is_float v" and "to_float u = Inr x" and "to_float v = Inr y"
  shows "py_add u v = Inr (PyFloat (float_add x y))"
    and "py_sub u v = Inr (PyFloat (float_sub x y))"
    and "py_mul u v = Inr (PyFloat (float_mul x y))"
  by (simp_all add: py_add_def py_sub_def py_mul_def py_binop_float [OF assms])

text \<open>
  Formatting raises for an \<^verbatim>\<open>int\<close> that cannot be converted only; every \<^verbatim>\<open>int\<close>
  below \<open>2 ^ 53\<close> in magnitude is converted without rounding.
\<close>

lemma format_2f_float: "format_2f (PyFloat d) = Inr ()"
  by (simp add: format_2f_def to_float_def)


lemma to_float_error: "to_float v = Inl e \<Longrightarrow> e = OverflowError"
  by (cases v) (auto simp: to_float_def int_to_float_def split: double.splits)

lemma floor_log2_ratio_int:
  assumes "0 < a"
  shows "floor_log2_ratio a 1 = bitlen a - 1"
proof -
  have b1: "bitlen 1 = 1" by (simp add: bitlen_alt_def)
  from assms have "1 \<le> bitlen a" by (simp add: bitlen_alt_def)
  moreover from bitlen_bounds [OF assms] have "2 ^ nat (bitlen a - 1) \<le> a" by simp
  ultimately show ?thesis by (simp add: floor_log2_ratio_def b1 Let_def)
qed

lemma div_half_even_1: "div_half_even n 1 = n"
  by (simp add: div_half_even_def)

lemma fl_of_int_small:
  assumes "\<bar>n\<bar> < 2 ^ 53"
  shows "fl (of_int n) = Finite (of_int n)"
proof (cases "n = 0")
  case True
  then show ?thesis by (simp add: fl_def)
next
  case False
  then have pos: "0 < \<bar>n\<bar>" by simp
  define l where "l = bitlen \<bar>n\<bar> - 1"
  from pos have l0: "0 \<le> l" by (simp add: l_def bitlen_alt_def)
  from assms have "bitlen \<bar>n\<bar> \<le> 53" by (simp add: bitlen_le_iff_power)
  then have l52: "l \<le> 52" by (simp add: l_def)
  have fl2: "floor_log2_ratio \<bar>n\<bar> 1 = l" by (simp add: floor_log2_ratio_int [OF pos] l_def)
  show ?thesis
  proof (cases "l = 52")
    case True
    with assms False show ?thesis
      by (simp add: fl_def fl2 Let_def div_half_even_1)
  next
    case False
    with l52 have "l < 52" by simp
    with \<open>n \<noteq> 0\<close> l0 show ?thesis
      by (simp add: fl_def fl2 Let_def div_half_even_1 max_def)
  qed
qed

lemma format_2f_small: "\<bar>n\<bar> < 2 ^ 53 \<Longrightarrow> format_2f (PyInt n) = Inr ()"
  by (simp add: format_2f_def to_float_def int_to_float_def fl_of_int_small)


lemma to_float_literal: "to_float (float_literal x) = Inr (fl x)"
  by (simp add: float_literal_def to_float_def)

lemma is_float_literal: "is_float (float_literal x)"
  by (simp add: float_literal_def is_float_def)

lemma format_2f_literal: "format_2f (float_literal x) = Inr ()"
  by (simp add: float_literal_def format_2f_float)

text \<open>
  The floats of some literals, as \<^verbatim>\<open>float.as_integer_ratio\<close> gives them, and the
  \<^verbatim>\<open>int\<close> beyond the floats.
\<close>

lemma float_literals:
  "float_literal (1 / 10) = PyFloat (Finite (3602879701896397 / 36028797018963968))"
  "float_literal (1 / 5) = PyFloat (Finite (3602879701896397 / 18014398509481984))"
  "float_literal (3 / 10) = PyFloat (Finite (5404319552844595 / 18014398509481984))"
  "float_literal (7 / 10) = PyFloat (Finite (3152519739159347 / 4503599627370496))"
  "float_literal (9 / 10) = PyFloat (Finite (8106479329266893 / 9007199254740992))"
  "float_literal 1 = PyFloat (Finite 1)"
  by code_simp+





subsection \<open>Deposits\<close>




subsection \<open>Withdrawals from a BankAccount or a SavingsAccount\<close>






subsection \<open>Withdrawals from a CurrentAccount\<close>






subsection \<open>Withdrawals from a FixedDepositAccount\<close>

lemma FixedDepositAccount_withdraw_cases:
  "FixedDepositAccount_withdraw now days created amount a =
     (if 999999999 < \<bar>days\<bar> \<or> created + days * 86400000000 < 0 \<or>
         datetime_end \<le> created + days * 86400000000
      then (Inl OverflowError, a)
      else if now < created + days * 86400000000
      then (Inl (ValueError ''Withdrawal not allowed before lock-in period ends.''), a)
      else BankAccount_withdraw amount a)"
  by (auto simp: FixedDepositAccount_withdraw_def timedelta_days_def datetime_add_def)




subsection \<open>Interest\<close>





subsection \<open>The outcomes of a withdrawal\<close>

text \<open>
  Whatever the class, a withdrawal that returns normally had an amount that is not
  \<open>\<le> 0\<close> and that can be formatted, and it assigned the difference to the balance. A
  withdrawal of an amount that can be formatted changes nothing when it raises.
\<close>

lemma BankAccount_withdraw_Inr:
  assumes "fst (BankAccount_withdraw amount a) = Inr ()"
  shows "\<not> py_le amount (PyInt 0) \<and> format_2f amount = Inr () \<and>
         (\<exists>v. py_sub (balance a) amount = Inr v \<and>
              BankAccount_withdraw amount a = (Inr (), a\<lparr>balance := v\<rparr>))"
  using assms
  by (auto simp: BankAccount_withdraw_def split: if_splits sum.splits)

lemma CurrentAccount_withdraw_Inr:
  assumes "fst (CurrentAccount_withdraw limit amount a) = Inr ()"
  shows "\<not> py_le amount (PyInt 0) \<and> format_2f amount = Inr () \<and>
         (\<exists>v. py_sub (balance a) amount = Inr v \<and>
              CurrentAccount_withdraw limit amount a = (Inr (), a\<lparr>balance := v\<rparr>))"
  using assms
  by (auto simp: CurrentAccount_withdraw_def split: if_splits sum.splits)

lemma withdraw_Inr:
  assumes "fst (withdraw now amount a) = Inr ()"
  shows "\<not> py_le amount (PyInt 0) \<and> format_2f amount = Inr () \<and>
         (\<exists>v. py_sub (balance a) amount = Inr v \<and>
              withdraw now amount a = (Inr (), a\<lparr>balance := v\<rparr>))"
proof (cases "cls a")
  case BankAccount
  with assms BankAccount_withdraw_Inr [of amount a] show ?thesis
    by (simp add: withdraw_def)
next
  case (SavingsAccount rate)
  with assms BankAccount_withdraw_Inr [of amount a] show ?thesis
    by (simp add: withdraw_def)
next
  case (CurrentAccount limit)
  with assms CurrentAccount_withdraw_Inr [of limit amount a] show ?thesis
    by (simp add: withdraw_def)
next
  case (FixedDepositAccount days created)
  with assms have "fst (BankAccount_withdraw amount a) = Inr ()"
    and "withdraw now amount a = BankAccount_withdraw amount a"
    by (auto simp: withdraw_def FixedDepositAccount_withdraw_cases split: if_splits)
  with BankAccount_withdraw_Inr [of amount a] show ?thesis by simp
qed


lemma deposit_after:
  assumes "\<not> py_le amount (PyInt 0)" and "format_2f amount = Inr ()"
    and "py_add (balance a) amount = Inr v"
  shows "deposit amount a = (Inr (), a\<lparr>balance := v\<rparr>)"
  using assms by (simp add: deposit_def)

lemma transfer_funds_found:
  assumes "get_account b f = Some p" and "get_account b t = Some q"
  shows "transfer_funds now b f t amount s =
     (case withdraw now amount (s p) of
        (Inl e, a') \<Rightarrow> (Inl e, s(p := a'))
      | (Inr u, a') \<Rightarrow>
          (case deposit amount ((s(p := a')) q) of
             (Inl e, b') \<Rightarrow> (Inl e, (s(p := a'))(q := b'))
           | (Inr u', b') \<Rightarrow> (format_2f amount, (s(p := a'))(q := b'))))"
  using assms by (simp add: transfer_funds_def Let_def split: prod.split sum.split)

lemma transfer_funds_done:
  assumes "get_account b f = Some p" and "get_account b t = Some q"
    and "withdraw now amount (s p) = (Inr (), a')"
    and "deposit amount ((s(p := a')) q) = (Inr (), b')"
    and "format_2f amount = Inr ()"
  shows "transfer_funds now b f t amount s = (Inr (), (s(p := a'))(q := b'))"
  using assms(3-5) by (simp add: transfer_funds_found [OF assms(1,2)])


subsection \<open>The objects of the examples\<close>

lemma demo_bank_accounts:
  "accounts demo_bank = [''S1001'' \<mapsto> 101, ''C1001'' \<mapsto> 102, ''F1001'' \<mapsto> 103]"
  by (simp add: demo_bank_def demo_store_def add_account_def init_Bank_def
      init_SavingsAccount_def init_CurrentAccount_def init_FixedDepositAccount_def
      init_BankAccount_def)

lemma demo_store_objects:
  "demo_store 101 = init_SavingsAccount ''S1001'' ''Alice'' (PyFloat (Finite (7 / 2))) (PyInt 1000)"
  "demo_store 102 = init_CurrentAccount ''C1001'' ''Bob'' (PyInt 500) (PyInt 200)"
  "demo_store 103 = init_FixedDepositAccount demo_clock ''F1001'' ''Charlie'' 30 (PyInt 5000)"
  by (simp_all add: demo_store_def)

lemma demo_get_account:
  "get_account demo_bank ''S1001'' = Some 101"
  "get_account demo_bank ''C1001'' = Some 102"
  "get_account demo_bank ''F1001'' = Some 103"
  "get_account demo_bank ''X9999'' = None"
  by (simp_all add: get_account_def demo_bank_accounts)

lemma demo_balances:
  "balance (demo_store 101) = PyInt 1000" "balance (demo_store 102) = PyInt 200"
  by (simp_all add: demo_store_objects init_SavingsAccount_def
      init_CurrentAccount_def init_BankAccount_def)


lemma demo_withdraw_current:
  "fst (withdraw 0 (PyInt 600) (demo_store 102)) = Inr ()"
  by (simp add: demo_store_objects withdraw_def CurrentAccount_withdraw_def
      init_CurrentAccount_def init_BankAccount_def py_int_cmp py_int_ops format_2f_small)

lemma edge_bank_accounts:
  "accounts edge_bank = [''A201'' \<mapsto> 201, ''A202'' \<mapsto> 202, ''A203'' \<mapsto> 203,
     ''A204'' \<mapsto> 204, ''A205'' \<mapsto> 205]"
  by (simp add: edge_bank_def edge_store_def add_account_def init_Bank_def init_BankAccount_def)

lemma edge_get_account:
  "get_account edge_bank ''A201'' = Some 201"
  "get_account edge_bank ''A202'' = Some 202"
  "get_account edge_bank ''A203'' = Some 203"
  "get_account edge_bank ''A204'' = Some 204"
  "get_account edge_bank ''A205'' = Some 205"
  by (simp_all add: get_account_def edge_bank_accounts)

lemma edge_store_objects:
  "edge_store 201 = init_BankAccount ''A201'' ''Ann'' (float_literal (3 / 10))"
  "edge_store 202 = init_BankAccount ''A202'' ''Ben'' (float_literal (7 / 10))"
  "edge_store 203 = init_BankAccount ''A203'' ''Cat'' (float_literal (9 / 10))"
  "edge_store 204 = init_BankAccount ''A204'' ''Dee'' (PyInt 5)"
  "edge_store 205 = init_BankAccount ''A205'' ''Eli'' (PyInt beyond_floats)"
  by (simp_all add: edge_store_def)



lemma edge_withdraw_203:
  "withdraw 0 (float_literal (1 / 5)) (edge_store 203)
     = (Inr (), init_BankAccount ''A203'' ''Cat''
                  (PyFloat (Finite (3152519739159347 / 4503599627370496))))"
  unfolding edge_store_objects by code_simp

lemma edge_deposit_203:
  "deposit (float_literal (1 / 5))
       (init_BankAccount ''A203'' ''Cat'' (PyFloat (Finite (3152519739159347 / 4503599627370496))))
     = (Inr (), init_BankAccount ''A203'' ''Cat''
                  (PyFloat (Finite (2026619832316723 / 2251799813685248))))"
  by code_simp




subsection \<open>Transfers\<close>




text \<open>
  Claim C10, as the specification states it: a self-transfer leaves the balance exactly
  unchanged. On the float balance \<^verbatim>\<open>0.9\<close> the self-transfer of \<^verbatim>\<open>0.2\<close> returns
  normally and leaves the balance \<^verbatim>\<open>0.8999999999999999\<close>.
\<close>

theorem transfer_funds_self_counterexample:
  "get_account edge_bank ''A203'' = Some 203 \<and>
   get_balance (edge_store 203) = PyFloat (Finite (8106479329266893 / 9007199254740992)) \<and>
   fst (withdraw 0 (float_literal (1 / 5)) (edge_store 203)) = Inr () \<and>
   fst (transfer_funds 0 edge_bank ''A203'' ''A203'' (float_literal (1 / 5)) edge_store)
     = Inr () \<and>
   get_balance (snd (transfer_funds 0 edge_bank ''A203'' ''A203'' (float_literal (1 / 5))
       edge_store) 203) = PyFloat (Finite (2026619832316723 / 2251799813685248)) \<and>
   get_balance (snd (transfer_funds 0 edge_bank ''A203'' ''A203'' (float_literal (1 / 5))
       edge_store) 203) \<noteq> get_balance (edge_store 203)"
proof -
  have t: "transfer_funds 0 edge_bank ''A203'' ''A203'' (float_literal (1 / 5)) edge_store
      = (Inr (),
         edge_store
           (203 := init_BankAccount ''A203'' ''Cat''
                     (PyFloat (Finite (2026619832316723 / 2251799813685248)))))"
    by (simp add: transfer_funds_found [where s = edge_store, OF edge_get_account(3,3)]
        edge_withdraw_203 edge_deposit_203 format_2f_literal)
  have b: "get_balance (edge_store 203) = PyFloat (Finite (8106479329266893 / 9007199254740992))"
    by (simp add: get_balance_def edge_store_objects init_BankAccount_def float_literals)
  from t b edge_get_account(3) edge_withdraw_203 show ?thesis
    by (simp add: get_balance_def init_BankAccount_def)
qed

text \<open>
  Claim C10, amended. Let a Bank hold the account object A under \<open>acc_id\<close> and let
  \<open>amount\<close> be one that \<^verbatim>\<open>A.withdraw\<close> accepts. When the amount and the balance of A are
  \<^verbatim>\<open>int\<close>s, \<^verbatim>\<open>transfer_funds(acc_id, acc_id, amount)\<close> returns normally and the
  balance of A is what it was: the withdrawal and the deposit act on the same object, and
  the store as a whole is unchanged. When the amount or the balance is a float, the
  transfer returns normally and the new balance is the float \<open>(b - a) + a\<close>, both
  operations rounded, for the balance \<open>b\<close> and the amount \<open>a\<close>.
\<close>

theorem transfer_funds_self:
  assumes "get_account b acc_id = Some p"
    and "fst (withdraw now amount (s p)) = Inr ()"
  shows "(amount = PyInt n \<and> balance (s p) = PyInt x \<longrightarrow>
            fst (transfer_funds now b acc_id acc_id amount s) = Inr () \<and>
            get_balance (snd (transfer_funds now b acc_id acc_id amount s) p)
              = get_balance (s p) \<and>
            snd (transfer_funds now b acc_id acc_id amount s) = s) \<and>
         ((is_float amount \<or> is_float (balance (s p))) \<and>
          to_float (balance (s p)) = Inr v \<and> to_float amount = Inr w \<longrightarrow>
            fst (transfer_funds now b acc_id acc_id amount s) = Inr () \<and>
            get_balance (snd (transfer_funds now b acc_id acc_id amount s) p)
              = PyFloat (float_add (float_sub v w) w))"
proof -
  from withdraw_Inr [OF assms(2)] obtain u
    where pos: "\<not> py_le amount (PyInt 0)" and fmt: "format_2f amount = Inr ()"
      and sub: "py_sub (balance (s p)) amount = Inr u"
      and wd: "withdraw now amount (s p) = (Inr (), (s p)\<lparr>balance := u\<rparr>)"
    by blast
  let ?s1 = "s(p := (s p)\<lparr>balance := u\<rparr>)"
  have ints: "fst (transfer_funds now b acc_id acc_id amount s) = Inr () \<and>
            get_balance (snd (transfer_funds now b acc_id acc_id amount s) p)
              = get_balance (s p) \<and>
            snd (transfer_funds now b acc_id acc_id amount s) = s"
    if h: "amount = PyInt n \<and> balance (s p) = PyInt x"
  proof -
    from h sub have u: "u = PyInt (x - n)" by (simp add: py_int_ops)
    from h u have "py_add (balance (?s1 p)) amount = Inr (PyInt x)"
      by (simp add: py_int_ops)
    from deposit_after [OF pos fmt this]
    have dp: "deposit amount (?s1 p) = (Inr (), (?s1 p)\<lparr>balance := PyInt x\<rparr>)" .
    from h have same: "(s p)\<lparr>balance := PyInt x\<rparr> = s p" by simp
    from transfer_funds_done [where s = s, OF assms(1,1) wd dp fmt] same
    show ?thesis by (simp add: get_balance_def)
  qed
  have floats: "fst (transfer_funds now b acc_id acc_id amount s) = Inr () \<and>
            get_balance (snd (transfer_funds now b acc_id acc_id amount s) p)
              = PyFloat (float_add (float_sub v w) w)"
    if h: "(is_float amount \<or> is_float (balance (s p))) \<and>
          to_float (balance (s p)) = Inr v \<and> to_float amount = Inr w"
  proof -
    from h have "py_sub (balance (s p)) amount = Inr (PyFloat (float_sub v w))"
      by (intro py_float_ops) auto
    with sub have u: "u = PyFloat (float_sub v w)" by simp
    have "py_add (balance (?s1 p)) amount = Inr (PyFloat (float_add (float_sub v w) w))"
      using h by (intro py_float_ops) (auto simp: u is_float_def to_float_def)
    from deposit_after [OF pos fmt this]
    have dp: "deposit amount (?s1 p)
        = (Inr (), (?s1 p)\<lparr>balance := PyFloat (float_add (float_sub v w) w)\<rparr>)" .
    from transfer_funds_done [where s = s, OF assms(1,1) wd dp fmt]
    show ?thesis by (simp add: get_balance_def)
  qed
  from ints floats show ?thesis by blast
qed

theorem transfer_funds_self_witness:
  "fst (transfer_funds 0 demo_bank ''C1001'' ''C1001'' (PyInt 600) demo_store) = Inr () \<and>
   get_balance (snd (transfer_funds 0 demo_bank ''C1001'' ''C1001'' (PyInt 600) demo_store) 102)
     = PyInt 200 \<and>
   snd (transfer_funds 0 demo_bank ''C1001'' ''C1001'' (PyInt 600) demo_store) = demo_store \<and>
   fst (transfer_funds 0 edge_bank ''A203'' ''A203'' (float_literal (1 / 5)) edge_store)
     = Inr () \<and>
   get_balance (snd (transfer_funds 0 edge_bank ''A203'' ''A203'' (float_literal (1 / 5))
       edge_store) 203) = PyFloat (Finite (2026619832316723 / 2251799813685248))"
proof -
  have ints: "PyInt 600 = PyInt 600 \<and> balance (demo_store 102) = PyInt 200"
    by (simp add: demo_balances)
  from transfer_funds_self [where s = demo_store and n = 600 and x = 200,
      OF demo_get_account(2) demo_withdraw_current] ints
  have "fst (transfer_funds 0 demo_bank ''C1001'' ''C1001'' (PyInt 600) demo_store) = Inr () \<and>
      get_balance (snd (transfer_funds 0 demo_bank ''C1001'' ''C1001'' (PyInt 600) demo_store) 102)
        = get_balance (demo_store 102) \<and>
      snd (transfer_funds 0 demo_bank ''C1001'' ''C1001'' (PyInt 600) demo_store) = demo_store"
    by blast
  then have 1: "fst (transfer_funds 0 demo_bank ''C1001'' ''C1001'' (PyInt 600) demo_store)
        = Inr () \<and>
      get_balance (snd (transfer_funds 0 demo_bank ''C1001'' ''C1001'' (PyInt 600) demo_store) 102)
        = PyInt 200 \<and>
      snd (transfer_funds 0 demo_bank ''C1001'' ''C1001'' (PyInt 600) demo_store) = demo_store"
    by (simp add: get_balance_def demo_balances)
  have w: "fst (withdraw 0 (float_literal (1 / 5)) (edge_store 203)) = Inr ()"
    by (simp add: edge_withdraw_203)
  have floats: "(is_float (float_literal (1 / 5)) \<or> is_float (balance (edge_store 203))) \<and>
      to_float (balance (edge_store 203)) = Inr (fl (9 / 10)) \<and>
      to_float (float_literal (1 / 5)) = Inr (fl (1 / 5))"
    by (simp add: is_float_literal to_float_literal edge_store_objects init_BankAccount_def)
  from transfer_funds_self [where s = edge_store and v = "fl (9 / 10)" and w = "fl (1 / 5)",
      OF edge_get_account(3) w] floats
  have "fst (transfer_funds 0 edge_bank ''A203'' ''A203'' (float_literal (1 / 5)) edge_store)
        = Inr () \<and>
      get_balance (snd (transfer_funds 0 edge_bank ''A203'' ''A203'' (float_literal (1 / 5))
          edge_store) 203) = PyFloat (float_add (float_sub (fl (9 / 10)) (fl (1 / 5))) (fl (1 / 5)))"
    by blast
  moreover have "float_add (float_sub (fl (9 / 10)) (fl (1 / 5))) (fl (1 / 5))
      = Finite (2026619832316723 / 2251799813685248)"
    by code_simp
  ultimately have 2: "fst (transfer_funds 0 edge_bank ''A203'' ''A203'' (float_literal (1 / 5))
        edge_store) = Inr () \<and>
      get_balance (snd (transfer_funds 0 edge_bank ''A203'' ''A203'' (float_literal (1 / 5))
          edge_store) 203) = PyFloat (Finite (2026619832316723 / 2251799813685248))"
    by simp
  from 1 2 show ?thesis by blast
qed

text \<open>
  Claim C6. When the source id or the destination id is not a key of the Bank's dict,
  \<^verbatim>\<open>transfer_funds\<close> raises "One or both accounts not found." and no object of the
  store is changed.
\<close>

theorem transfer_funds_not_found:
  assumes "get_account b from_id = None \<or> get_account b to_id = None"
  shows "transfer_funds now b from_id to_id amount s =
           (Inl (ValueError ''One or both accounts not found.''), s)"
  using assms by (auto simp: transfer_funds_def split: option.split)

theorem transfer_funds_not_found_witness:
  "transfer_funds 0 demo_bank ''S1001'' ''X9999'' (PyInt 300) demo_store =
     (Inl (ValueError ''One or both accounts not found.''), demo_store) \<and>
   transfer_funds 0 demo_bank ''X9999'' ''S1001'' (PyInt 300) demo_store =
     (Inl (ValueError ''One or both accounts not found.''), demo_store)"
  using transfer_funds_not_found [of demo_bank "''S1001''" "''X9999''" 0 "PyInt 300" demo_store]
    transfer_funds_not_found [of demo_bank "''X9999''" "''S1001''" 0 "PyInt 300" demo_store]
    demo_get_account(4)
  by blast




subsection \<open>Registering accounts\<close>

text \<open>
  Each entry of the dict is filed under the number of the object it refers to; every
  \<^verbatim>\<open>add_account\<close> call, failing or not, keeps it so.
\<close>

lemma add_account_keyed:
  assumes "\<forall>k p. accounts b k = Some p \<longrightarrow> account_number (s p) = k"
  shows "\<forall>k p. accounts (snd (add_account s r b)) k = Some p \<longrightarrow> account_number (s p) = k"
  using assms by (auto simp: add_account_def split: if_splits)

lemma add_accounts_keyed:
  assumes "\<forall>k p. accounts b k = Some p \<longrightarrow> account_number (s p) = k"
  shows "\<forall>k p. accounts (add_accounts s rs b) k = Some p \<longrightarrow> account_number (s p) = k"
  using assms
proof (induction rs arbitrary: b)
  case Nil
  then show ?case by simp
next
  case (Cons r rs)
  from Cons.IH [OF add_account_keyed [OF Cons.prems]] show ?case by simp
qed

text \<open>
  Claim C7. \<^verbatim>\<open>add_account\<close> with an object whose number is already a key raises
  "Account with this number already exists." and leaves the Bank, hence the existing
  entry, as it was. After any run of \<^verbatim>\<open>add_account\<close> calls on a new Bank every entry
  is filed under the number of its own object, so two different entries never refer to
  objects with the same number, nor to the same object.
\<close>

theorem add_account_spec:
  "(account_number (s r) \<in> dom (accounts b) \<longrightarrow>
      add_account s r b = (Inl (ValueError ''Account with this number already exists.''), b)) \<and>
   (\<forall>k p. accounts (add_accounts s rs init_Bank) k = Some p \<longrightarrow> account_number (s p) = k) \<and>
   (\<forall>k k' p p'. accounts (add_accounts s rs init_Bank) k = Some p \<and>
       accounts (add_accounts s rs init_Bank) k' = Some p' \<and> k \<noteq> k' \<longrightarrow>
       account_number (s p) \<noteq> account_number (s p') \<and> p \<noteq> p')"
proof -
  have keyed: "\<forall>k p. accounts (add_accounts s rs init_Bank) k = Some p \<longrightarrow>
      account_number (s p) = k"
    by (rule add_accounts_keyed) (simp add: init_Bank_def)
  have "account_number (s r) \<in> dom (accounts b) \<longrightarrow>
      add_account s r b = (Inl (ValueError ''Account with this number already exists.''), b)"
    by (simp add: add_account_def)
  moreover from keyed have "\<forall>k k' p p'. accounts (add_accounts s rs init_Bank) k = Some p \<and>
       accounts (add_accounts s rs init_Bank) k' = Some p' \<and> k \<noteq> k' \<longrightarrow>
       account_number (s p) \<noteq> account_number (s p') \<and> p \<noteq> p'"
    by metis
  ultimately show ?thesis using keyed by blast
qed

theorem add_account_spec_witness:
  "account_number (demo_store 101) \<in> dom (accounts demo_bank) \<and>
   add_account demo_store 101 demo_bank =
     (Inl (ValueError ''Account with this number already exists.''), demo_bank) \<and>
   accounts demo_bank ''S1001'' = Some 101 \<and> accounts demo_bank ''C1001'' = Some 102 \<and>
   account_number (demo_store 101) = ''S1001'' \<and> account_number (demo_store 102) = ''C1001'' \<and>
   account_number (demo_store 101) \<noteq> account_number (demo_store 102)"
proof -
  note t = add_account_spec [of demo_store 101 demo_bank "[101, 102, 103]", folded demo_bank_def]
  have dup: "account_number (demo_store 101) \<in> dom (accounts demo_bank)"
    by (simp add: demo_bank_accounts demo_store_objects init_SavingsAccount_def
        init_BankAccount_def)
  have e0: "accounts demo_bank ''S1001'' = Some 101"
    and e1: "accounts demo_bank ''C1001'' = Some 102"
    by (simp_all add: demo_bank_accounts)
  have neq: "''S1001'' \<noteq> ''C1001''" by simp
  from t dup have 1: "add_account demo_store 101 demo_bank =
     (Inl (ValueError ''Account with this number already exists.''), demo_bank)"
    by blast
  from t e0 have 2: "account_number (demo_store 101) = ''S1001''" by blast
  from t e1 have 3: "account_number (demo_store 102) = ''C1001''" by blast
  from t e0 e1 neq have 4: "account_number (demo_store 101) \<noteq> account_number (demo_store 102)"
    by blast
  from dup 1 e0 e1 2 3 4 show ?thesis by blast
qed

end
